theory Spec2Isabelle
  imports Main
begin

section \<open>Outcomes, mutex capability and the store\<close>

text \<open>
  The header \<^verbatim>\<open>boost/synchronized.hpp\<close> defines two class templates: \<^verbatim>\<open>locked_ptr\<close>
  (the guard) and \<^verbatim>\<open>synchronized\<close> (the wrapper). Both only ever touch the mutex through
  its member functions \<^verbatim>\<open>lock()\<close> and \<^verbatim>\<open>unlock()\<close>, which are supplied by the template
  argument. A call of such a member function may return, may throw, or may not come back
  at all (a blocking acquire); in each case it may have changed the mutex object.
\<close>

type_synonym addr = nat

datatype ('e, 'a) outcome = Returns 'a | Raises 'e | Blocks

text \<open>The mutex type argument: what \<^verbatim>\<open>lock()\<close> and \<^verbatim>\<open>unlock()\<close> do to a mutex object.\<close>

record ('m, 'e) mutex_type =
  mutex_lock :: "'m \<Rightarrow> 'm \<times> ('e, unit) outcome"
  mutex_unlock :: "'m \<Rightarrow> 'm \<times> ('e, unit) outcome"

text \<open>
  Every call the library makes on a mutex is written to a log, with the address of the
  mutex object and the way the call ended.
\<close>

datatype 'e call = Lock_call addr "('e, unit) outcome" | Unlock_call addr "('e, unit) outcome"

text \<open>
  The store holds the mutex objects and the resource objects by address; references and
  pointers of the C++ code are addresses into it.
\<close>

record ('m, 'r, 'e) world =
  mutexes :: "addr \<Rightarrow> 'm"
  resources :: "addr \<Rightarrow> 'r"
  calls :: "'e call list"

definition call_lock ::
  "('m, 'e) mutex_type \<Rightarrow> addr \<Rightarrow> ('m, 'r, 'e) world \<Rightarrow> ('m, 'r, 'e) world \<times> ('e, unit) outcome" where
  "call_lock M a w =
     (case mutex_lock M (mutexes w a) of
        (m', r) \<Rightarrow> (w\<lparr>mutexes := (mutexes w)(a := m'), calls := calls w @ [Lock_call a r]\<rparr>, r))"

definition call_unlock ::
  "('m, 'e) mutex_type \<Rightarrow> addr \<Rightarrow> ('m, 'r, 'e) world \<Rightarrow> ('m, 'r, 'e) world \<times> ('e, unit) outcome" where
  "call_unlock M a w =
     (case mutex_unlock M (mutexes w a) of
        (m', r) \<Rightarrow> (w\<lparr>mutexes := (mutexes w)(a := m'), calls := calls w @ [Unlock_call a r]\<rparr>, r))"

text \<open>\<^verbatim>\<open>try { body } catch (...) {}\<close>: an exception raised by the body ends there.\<close>

definition try_catch_all ::
  "('w \<Rightarrow> 'w \<times> ('e, unit) outcome) \<Rightarrow> 'w \<Rightarrow> 'w \<times> ('e, unit) outcome" where
  "try_catch_all body w =
     (case body w of
        (w', Returns u) \<Rightarrow> (w', Returns u)
      | (w', Raises e) \<Rightarrow> (w', Returns ())
      | (w', Blocks) \<Rightarrow> (w', Blocks))"


section \<open>The guard: \<^verbatim>\<open>locked_ptr\<close>\<close>

text \<open>
  \<^verbatim>\<open>locked_ptr<Resource, Mutex>\<close> has the members \<^verbatim>\<open>Resource * ptr_\<close> and
  \<^verbatim>\<open>Mutex & mutex_\<close> (fields \<open>ptr_p\<close> and \<open>mutex_p\<close>; a null pointer is \<open>None\<close>). The field
  \<open>Resource_const\<close> records whether the template argument \<^verbatim>\<open>Resource\<close> is
  const-qualified, that is, whether \<^verbatim>\<open>ptr_\<close> is a pointer to const.
\<close>

record locked_ptr =
  Resource_const :: bool
  ptr_p :: "addr option"
  mutex_p :: addr

text \<open>
  \<^verbatim>\<open>locked_ptr(Resource * ptr, Mutex & mutex)\<close> (lines 31 to 37). When \<^verbatim>\<open>mutex_.lock()\<close>
  throws, the exception leaves the constructor and no object comes into being.
\<close>

definition locked_ptr_ctor ::
  "bool \<Rightarrow> ('m, 'e) mutex_type \<Rightarrow> addr option \<Rightarrow> addr \<Rightarrow> ('m, 'r, 'e) world
     \<Rightarrow> ('m, 'r, 'e) world \<times> ('e, locked_ptr) outcome" where
  "locked_ptr_ctor c M ptr mutex w =
     (let this = \<lparr>Resource_const = c, ptr_p = ptr, mutex_p = mutex\<rparr> in
      if ptr \<noteq> None then
        (case call_lock M (mutex_p this) w of
           (w', Returns u) \<Rightarrow> (w', Returns this)
         | (w', Raises e) \<Rightarrow> (w', Raises e)
         | (w', Blocks) \<Rightarrow> (w', Blocks))
      else (w, Returns this))"

text \<open>
  \<^verbatim>\<open>locked_ptr(locked_ptr && other) noexcept\<close> (lines 39 to 43): the result is the store,
  the new guard and \<^verbatim>\<open>other\<close> as the constructor leaves it.
\<close>

definition locked_ptr_move ::
  "locked_ptr \<Rightarrow> ('m, 'r, 'e) world \<Rightarrow> ('m, 'r, 'e) world \<times> locked_ptr \<times> locked_ptr" where
  "locked_ptr_move other w =
     (w, \<lparr>Resource_const = Resource_const other, ptr_p = ptr_p other, mutex_p = mutex_p other\<rparr>,
         other\<lparr>ptr_p := None\<rparr>)"

text \<open>
  \<^verbatim>\<open>operator*\<close> and \<^verbatim>\<open>operator->\<close> (lines 48 to 59) hand out the pointee; on a null
  pointer the dereference is undefined, which is \<open>None\<close> here.
\<close>

definition operator_arrow :: "locked_ptr \<Rightarrow> addr option" where
  "operator_arrow this = ptr_p this"

definition operator_star :: "locked_ptr \<Rightarrow> ('m, 'r, 'e) world \<Rightarrow> 'r option" where
  "operator_star this w = (case ptr_p this of None \<Rightarrow> None | Some a \<Rightarrow> Some (resources w a))"

text \<open>\<^verbatim>\<open>~locked_ptr() noexcept\<close> (lines 64 to 69).\<close>

definition locked_ptr_dtor ::
  "('m, 'e) mutex_type \<Rightarrow> locked_ptr \<Rightarrow> ('m, 'r, 'e) world \<Rightarrow> ('m, 'r, 'e) world \<times> ('e, unit) outcome" where
  "locked_ptr_dtor M this w =
     (if ptr_p this \<noteq> None then try_catch_all (call_unlock M (mutex_p this)) w
      else (w, Returns ()))"

text \<open>The two states of a guard, read off its pointer.\<close>

definition Owning :: "locked_ptr \<Rightarrow> bool" where
  "Owning g = (ptr_p g \<noteq> None)"

definition Released :: "locked_ptr \<Rightarrow> bool" where
  "Released g = (ptr_p g = None)"


section \<open>The wrapper: \<^verbatim>\<open>synchronized\<close>\<close>

text \<open>
  A template argument, as far as the header and its constructors depend on it: whether it
  is an lvalue reference type, whether the type with the reference removed is
  const-qualified, and whether an object of that type can be constructed from an lvalue
  (\<^verbatim>\<open>std::is_copy_constructible\<close>) and from an rvalue
  (\<^verbatim>\<open>std::is_move_constructible\<close>) of the type.
\<close>

record tparam =
  is_lvalue_reference :: bool
  is_const :: bool
  is_copy_constructible :: bool
  is_move_constructible :: bool

text \<open>
  The default of the second template parameter (line 120):
  \<^verbatim>\<open>std::conditional<std::is_lvalue_reference<Resource>::value, std::mutex&, std::mutex>\<close>.
  A \<^verbatim>\<open>std::mutex\<close> can be neither copied nor moved.
\<close>

definition default_Mutex :: "tparam \<Rightarrow> tparam" where
  "default_Mutex R =
     \<lparr>is_lvalue_reference = is_lvalue_reference R, is_const = False,
      is_copy_constructible = False, is_move_constructible = False\<rparr>"

text \<open>
  An instantiation \<^verbatim>\<open>synchronized<Resource>\<close> or \<^verbatim>\<open>synchronized<Resource, Mutex>\<close>.
\<close>

definition instantiate :: "tparam \<Rightarrow> tparam option \<Rightarrow> tparam \<times> tparam" where
  "instantiate R M = (R, case M of None \<Rightarrow> default_Mutex R | Some M' \<Rightarrow> M')"

text \<open>
  The class declares its lock as \<^verbatim>\<open>mutable Mutex mutex_;\<close> (line 215). The specifier
  \<^verbatim>\<open>mutable\<close> cannot be applied to a reference member, nor to a member declared
  const. So the class is ill-formed for a \<^verbatim>\<open>Mutex\<close> argument that is a reference type
  or a const-qualified type, and no object of such an instantiation can be declared.
\<close>

definition well_formed :: "tparam \<times> tparam \<Rightarrow> bool" where
  "well_formed T = (\<not> is_lvalue_reference (snd T) \<and> \<not> is_const (snd T))"

text \<open>
  A wrapper object: its two template arguments and its members \<^verbatim>\<open>mutable Mutex mutex_\<close>
  and \<^verbatim>\<open>Resource resource_\<close> (fields \<open>mutex_s\<close> and \<open>resource_s\<close>). A member is given by
  the address of the object it names: the member's own storage when it is held by value,
  the referenced object when it is a reference.
\<close>

record synchronized =
  Resource :: tparam
  Mutex :: tparam
  mutex_s :: addr
  resource_s :: addr

text \<open>
  A constructor argument is bound to a forwarding reference and handed on with
  \<^verbatim>\<open>std::forward\<close>. It is an lvalue, naming an object in the store through a const or a
  non-const access path (\<open>Lvalue is_const address\<close>), or an rvalue, a temporary object
  with a value that lives at an address until the declaration is complete
  (\<open>Rvalue address value\<close>).

  Initialising a member of type \<open>T\<close> from it:
  \<^item> a reference to non-const binds to a non-const lvalue only;
  \<^item> a reference to const binds to any lvalue, and also to a temporary; it is then left
    dangling when the declaration is complete and the temporary is gone (the store does
    not keep the temporary, and what is read through such a reference is undefined in
    C++);
  \<^item> a by-value member is a new object in the member's own storage, copy-constructed
    from an lvalue or move-constructed from an rvalue, if the type allows that.
  \<open>None\<close> is an initialisation that does not compile.
\<close>

datatype 'a arg = Lvalue bool addr | Rvalue addr 'a

definition init_member ::
  "tparam \<Rightarrow> addr \<Rightarrow> 'a arg \<Rightarrow> (addr \<Rightarrow> 'a) \<Rightarrow> ((addr \<Rightarrow> 'a) \<times> addr) option" where
  "init_member T storage a heap =
     (if is_lvalue_reference T then
        (case a of
           Lvalue c x \<Rightarrow> if c \<and> \<not> is_const T then None else Some (heap, x)
         | Rvalue x v \<Rightarrow> if is_const T then Some (heap, x) else None)
      else
        (case a of
           Lvalue c x \<Rightarrow>
             if is_copy_constructible T then Some (heap(storage := heap x), storage) else None
         | Rvalue x v \<Rightarrow>
             if is_move_constructible T then Some (heap(storage := v), storage) else None))"

text \<open>
  \<^verbatim>\<open>synchronized(Resource_Arg && resource, Mutex_Arg && mutex)\<close> (lines 162 to 166), for
  the instantiation \<open>T\<close> (the \<^verbatim>\<open>Resource\<close> and the \<^verbatim>\<open>Mutex\<close> argument) and an object
  whose members have the storage \<open>this_mutex\<close> and \<open>this_resource\<close>. The members are
  initialised in the order of their declaration, \<^verbatim>\<open>mutex_\<close> first. \<open>None\<close> is a
  declaration that does not compile.
\<close>

definition synchronized_ctor2 ::
  "tparam \<times> tparam \<Rightarrow> addr \<Rightarrow> addr \<Rightarrow> 'r arg \<Rightarrow> 'm arg \<Rightarrow> ('m, 'r, 'e) world
     \<Rightarrow> (('m, 'r, 'e) world \<times> synchronized) option" where
  "synchronized_ctor2 T this_mutex this_resource resource mutex w =
     (if well_formed T then
        (case init_member (snd T) this_mutex mutex (mutexes w) of
           None \<Rightarrow> None
         | Some (ms, ma) \<Rightarrow>
             (case init_member (fst T) this_resource resource (resources w) of
                None \<Rightarrow> None
              | Some (rs, ra) \<Rightarrow>
                  Some (w\<lparr>mutexes := ms, resources := rs\<rparr>,
                        \<lparr>Resource = fst T, Mutex = snd T, mutex_s = ma, resource_s = ra\<rparr>)))
      else None)"

text \<open>
  \<^verbatim>\<open>explicit synchronized(Resource_Arg && resource)\<close> (lines 174 to 177): the mutex member
  is default-constructed; \<open>init\<close> is the value of a default-constructed mutex.
\<close>

definition synchronized_ctor1 ::
  "tparam \<times> tparam \<Rightarrow> addr \<Rightarrow> addr \<Rightarrow> 'm \<Rightarrow> 'r arg \<Rightarrow> ('m, 'r, 'e) world
     \<Rightarrow> (('m, 'r, 'e) world \<times> synchronized) option" where
  "synchronized_ctor1 T this_mutex this_resource init resource w =
     (if well_formed T then
        (case init_member (fst T) this_resource resource (resources w) of
           None \<Rightarrow> None
         | Some (rs, ra) \<Rightarrow>
             Some (w\<lparr>mutexes := (mutexes w)(this_mutex := init), resources := rs\<rparr>,
                   \<lparr>Resource = fst T, Mutex = snd T, mutex_s = this_mutex, resource_s = ra\<rparr>))
      else None)"

text \<open>
  \<^verbatim>\<open>synchronized() = default\<close> (line 152): both members are default-constructed, which
  a reference member cannot be; \<open>init_mutex\<close> and \<open>init_resource\<close> are the values of a
  default-constructed mutex and resource.
\<close>

definition synchronized_default_ctor ::
  "tparam \<times> tparam \<Rightarrow> addr \<Rightarrow> addr \<Rightarrow> 'm \<Rightarrow> 'r \<Rightarrow> ('m, 'r, 'e) world
     \<Rightarrow> (('m, 'r, 'e) world \<times> synchronized) option" where
  "synchronized_default_ctor T this_mutex this_resource init_mutex init_resource w =
     (if well_formed T \<and> \<not> is_lvalue_reference (fst T) then
        Some (w\<lparr>mutexes := (mutexes w)(this_mutex := init_mutex),
                resources := (resources w)(this_resource := init_resource)\<rparr>,
              \<lparr>Resource = fst T, Mutex = snd T, mutex_s = this_mutex, resource_s = this_resource\<rparr>)
      else None)"

text \<open>
  The converting constructors delegate to the two-argument constructor with the lvalues
  \<^verbatim>\<open>other.resource_\<close> and \<^verbatim>\<open>other.mutex_\<close>. In the one that takes a mutable wrapper
  (lines 182 to 185) \<^verbatim>\<open>other.resource_\<close> is const exactly when the resource type of
  \<^verbatim>\<open>other\<close> is. In the one that takes a const wrapper (lines 190 to 193) a resource that
  \<^verbatim>\<open>other\<close> holds by value is const as a member of a const object, while a reference
  member keeps the constness of the type it refers to. \<^verbatim>\<open>other.mutex_\<close> is declared
  mutable and so is non-const in both.
\<close>

definition synchronized_convert ::
  "tparam \<times> tparam \<Rightarrow> addr \<Rightarrow> addr \<Rightarrow> synchronized \<Rightarrow> ('m, 'r, 'e) world
     \<Rightarrow> (('m, 'r, 'e) world \<times> synchronized) option" where
  "synchronized_convert T this_mutex this_resource other w =
     synchronized_ctor2 T this_mutex this_resource
       (Lvalue (is_const (Resource other)) (resource_s other))
       (Lvalue False (mutex_s other)) w"

definition synchronized_convert_const ::
  "tparam \<times> tparam \<Rightarrow> addr \<Rightarrow> addr \<Rightarrow> synchronized \<Rightarrow> ('m, 'r, 'e) world
     \<Rightarrow> (('m, 'r, 'e) world \<times> synchronized) option" where
  "synchronized_convert_const T this_mutex this_resource other w =
     synchronized_ctor2 T this_mutex this_resource
       (Lvalue (if is_lvalue_reference (Resource other) then is_const (Resource other) else True)
          (resource_s other))
       (Lvalue False (mutex_s other)) w"

text \<open>
  \<^verbatim>\<open>locked_mutable_ptr lock()\<close> (lines 199 to 202) returns a
  \<^verbatim>\<open>locked_ptr<resource_type, mutex_type>\<close>, and \<^verbatim>\<open>locked_const_ptr lock() const\<close>
  (lines 208 to 211) a \<^verbatim>\<open>locked_ptr<resource_type const, mutex_type>\<close>, where
  \<^verbatim>\<open>resource_type\<close> is \<^verbatim>\<open>Resource\<close> with the reference removed.
  \<^verbatim>\<open>std::addressof(resource_)\<close> is the address of the member, never null.
\<close>

definition lock ::
  "('m, 'e) mutex_type \<Rightarrow> synchronized \<Rightarrow> ('m, 'r, 'e) world
     \<Rightarrow> ('m, 'r, 'e) world \<times> ('e, locked_ptr) outcome" where
  "lock M this w =
     locked_ptr_ctor (is_const (Resource this)) M (Some (resource_s this)) (mutex_s this) w"

definition lock_const ::
  "('m, 'e) mutex_type \<Rightarrow> synchronized \<Rightarrow> ('m, 'r, 'e) world
     \<Rightarrow> ('m, 'r, 'e) world \<times> ('e, locked_ptr) outcome" where
  "lock_const M this w =
     locked_ptr_ctor True M (Some (resource_s this)) (mutex_s this) w"


section \<open>The mutex types of \<^verbatim>\<open>test.cpp\<close>\<close>

datatype exn = Runtime_error string | Out_of_range

text \<open>
  \<^verbatim>\<open>mock_mutex\<close> of the test \<^verbatim>\<open>move_ptr\<close> (lines 126 to 132), the instrumented lock.
  The counters are C++ \<^verbatim>\<open>int\<close>s; the tests count to one, far from the type's bound.
\<close>

record mock_mutex_count =
  count_lock :: int
  count_unlock :: int

definition mock_mutex_move_ptr :: "(mock_mutex_count, 'e) mutex_type" where
  "mock_mutex_move_ptr =
     \<lparr>mutex_lock = (\<lambda>m. (m\<lparr>count_lock := count_lock m + 1\<rparr>, Returns ())),
      mutex_unlock = (\<lambda>m. (m\<lparr>count_unlock := count_unlock m + 1\<rparr>, Returns ()))\<rparr>"

text \<open>
  \<^verbatim>\<open>mock_mutex\<close> of the test \<^verbatim>\<open>avoid_undefined_behaviour_if_unlock_throws\<close>
  (lines 157 to 160): it has no data members.
\<close>

definition mock_mutex_unlock_throws :: "(unit, exn) mutex_type" where
  "mock_mutex_unlock_throws =
     \<lparr>mutex_lock = (\<lambda>m. (m, Returns ())),
      mutex_unlock = (\<lambda>m. (m, Raises (Runtime_error ''out of cheese exception'')))\<rparr>"

text \<open>
  The counterpart the tests do not have: an instrumented mutex whose \<^verbatim>\<open>lock()\<close> counts
  the call and then throws.
\<close>

definition mock_mutex_lock_throws :: "(mock_mutex_count, exn) mutex_type" where
  "mock_mutex_lock_throws =
     \<lparr>mutex_lock = (\<lambda>m. (m\<lparr>count_lock := count_lock m + 1\<rparr>, Raises (Runtime_error ''lock failed''))),
      mutex_unlock = (\<lambda>m. (m\<lparr>count_unlock := count_unlock m + 1\<rparr>, Returns ()))\<rparr>"

text \<open>
  \<^verbatim>\<open>std::mutex\<close> of the standard library, as a flag that says whether it is held.
  \<^verbatim>\<open>lock()\<close> on a held mutex waits for a release; in a run of one thread of control
  nobody releases it, so the call does not come back. \<^verbatim>\<open>try_lock()\<close> answers at once.
\<close>

definition std_mutex :: "(bool, 'e) mutex_type" where
  "std_mutex =
     \<lparr>mutex_lock = (\<lambda>held. if held then (held, Blocks) else (True, Returns ())),
      mutex_unlock = (\<lambda>held. (False, Returns ()))\<rparr>"

definition std_mutex_try_lock :: "bool \<Rightarrow> bool \<times> bool" where
  "std_mutex_try_lock held = (if held then (held, False) else (True, True))"


section \<open>The resource operations the tests use\<close>

text \<open>
  \<^verbatim>\<open>std::vector<int>::at\<close> checks the index and throws \<^verbatim>\<open>std::out_of_range\<close>;
  \<^verbatim>\<open>boost::range::sort\<close> sorts in place in ascending order. The elements are C++
  \<^verbatim>\<open>int\<close>s; they are only stored and compared.
\<close>

definition vector_at_assign :: "int list \<Rightarrow> nat \<Rightarrow> int \<Rightarrow> (exn, int list) outcome" where
  "vector_at_assign v i x = (if i < length v then Returns (v[i := x]) else Raises Out_of_range)"

definition range_sort :: "int list \<Rightarrow> int list" where
  "range_sort v = sort v"

text \<open>
  The test \<^verbatim>\<open>maintain_const_correctness\<close> (lines 75 to 78) gives the resource two
  overloads of \<^verbatim>\<open>is_const\<close>. A call through a pointer to const selects the const
  overload, a call through a pointer to non-const the other one; a member function that is
  not const-qualified cannot be called through a pointer to const at all.
\<close>

datatype overload = Non_const_overload | Const_overload

definition overload_resolution :: "bool \<Rightarrow> overload" where
  "overload_resolution pointee_const = (if pointee_const then Const_overload else Non_const_overload)"

definition test_is_const :: "overload \<Rightarrow> bool" where
  "test_is_const ov = (case ov of Non_const_overload \<Rightarrow> False | Const_overload \<Rightarrow> True)"

definition callable :: "bool \<Rightarrow> bool \<Rightarrow> bool" where
  "callable pointee_const member_const = (member_const \<or> \<not> pointee_const)"

text \<open>\<^verbatim>\<open>guard->is_const()\<close>.\<close>

definition arrow_is_const :: "locked_ptr \<Rightarrow> bool option" where
  "arrow_is_const g =
     (case operator_arrow g of
        None \<Rightarrow> None
      | Some a \<Rightarrow> Some (test_is_const (overload_resolution (Resource_const g))))"


section \<open>Client code: sequences of guard operations\<close>

text \<open>
  What a caller can do with guards: construct one directly, obtain one from a wrapper
  (through either overload of \<^verbatim>\<open>lock\<close>), move-construct a new guard from a live one, and
  let a live guard's lifetime end. The live guard objects are kept in a list; a new object
  is put at its end, and \<open>Move i\<close> and \<open>Destroy i\<close> name the object at position \<open>i\<close>. An
  object whose lifetime has ended is gone from the list, so it is neither destroyed twice
  nor moved from. An operation that names no live object does nothing.
\<close>

datatype op =
    Construct bool "addr option" addr
  | Acquire synchronized
  | Acquire_const synchronized
  | Move nat
  | Destroy nat

type_synonym ('m, 'r, 'e) state = "('m, 'r, 'e) world \<times> locked_ptr list"

definition enter ::
  "('m, 'r, 'e) world \<times> ('e, locked_ptr) outcome \<Rightarrow> locked_ptr list
     \<Rightarrow> ('m, 'r, 'e) state \<times> ('e, unit) outcome" where
  "enter r gs =
     (case r of
        (w', Returns g) \<Rightarrow> ((w', gs @ [g]), Returns ())
      | (w', Raises e) \<Rightarrow> ((w', gs), Raises e)
      | (w', Blocks) \<Rightarrow> ((w', gs), Blocks))"

fun step ::
  "('m, 'e) mutex_type \<Rightarrow> op \<Rightarrow> ('m, 'r, 'e) state \<Rightarrow> ('m, 'r, 'e) state \<times> ('e, unit) outcome" where
  "step M (Construct c ptr mutex) (w, gs) = enter (locked_ptr_ctor c M ptr mutex w) gs"
| "step M (Acquire s) (w, gs) = enter (lock M s w) gs"
| "step M (Acquire_const s) (w, gs) = enter (lock_const M s w) gs"
| "step M (Move i) (w, gs) =
     (if i < length gs then
        (case locked_ptr_move (gs ! i) w of
           (w', new, other) \<Rightarrow> ((w', gs[i := other] @ [new]), Returns ()))
      else ((w, gs), Returns ()))"
| "step M (Destroy i) (w, gs) =
     (if i < length gs then
        (case locked_ptr_dtor M (gs ! i) w of
           (w', r) \<Rightarrow> ((w', take i gs @ drop (Suc i) gs), r))
      else ((w, gs), Returns ()))"

text \<open>
  A run executes the operations in order and reports how each one ended. An exception
  that an operation raises is the caller's to handle, and the run goes on; an operation
  that does not come back ends the run.
\<close>

fun run ::
  "('m, 'e) mutex_type \<Rightarrow> op list \<Rightarrow> ('m, 'r, 'e) state
     \<Rightarrow> ('m, 'r, 'e) state \<times> ('e, unit) outcome list" where
  "run M [] s = (s, [])"
| "run M (x # xs) s =
     (case step M x s of
        (s', Blocks) \<Rightarrow> (s', [Blocks])
      | (s', r) \<Rightarrow> (case run M xs s' of (s'', rs) \<Rightarrow> (s'', r # rs)))"

text \<open>
  Counting in the log: the acquire calls on the mutex at \<open>a\<close> that returned, and the
  release calls on it; and counting the live guards that hold it.
\<close>

fun acquire_call :: "addr \<Rightarrow> 'e call \<Rightarrow> bool" where
  "acquire_call a (Lock_call b r) = (b = a \<and> (case r of Returns u \<Rightarrow> True | Raises e \<Rightarrow> False | Blocks \<Rightarrow> False))"
| "acquire_call a (Unlock_call b r) = False"

fun release_call :: "addr \<Rightarrow> 'e call \<Rightarrow> bool" where
  "release_call a (Unlock_call b r) = (b = a)"
| "release_call a (Lock_call b r) = False"

definition acquired :: "addr \<Rightarrow> 'e call list \<Rightarrow> nat" where
  "acquired a log = length (filter (acquire_call a) log)"

definition released :: "addr \<Rightarrow> 'e call list \<Rightarrow> nat" where
  "released a log = length (filter (release_call a) log)"

definition holds :: "addr \<Rightarrow> locked_ptr list \<Rightarrow> nat" where
  "holds a gs = length (filter (\<lambda>g. Owning g \<and> mutex_p g = a) gs)"


section \<open>Blocks of \<^verbatim>\<open>test.cpp\<close>\<close>

text \<open>
  The block of the test \<^verbatim>\<open>usage\<close> (lines 27 to 31), for any mutex type:
  \<^verbatim>\<open>auto ptr = synchronized_vector.lock(); ptr->at(3) = 4; boost::range::sort(*ptr);\<close>
  and the end of scope, which destroys \<^verbatim>\<open>ptr\<close> also when \<^verbatim>\<open>at\<close> throws. \<open>None\<close> stands
  for the undefined behaviour of going through a null guard.
\<close>

definition multiple_operations_body ::
  "addr \<Rightarrow> ('m, int list, exn) world \<Rightarrow> ('m, int list, exn) world \<times> (exn, unit) outcome" where
  "multiple_operations_body a w =
     (case vector_at_assign (resources w a) 3 4 of
        Returns v \<Rightarrow> (w\<lparr>resources := (resources w)(a := range_sort v)\<rparr>, Returns ())
      | Raises e \<Rightarrow> (w, Raises e)
      | Blocks \<Rightarrow> (w, Blocks))"

definition multiple_operations ::
  "('m, exn) mutex_type \<Rightarrow> synchronized \<Rightarrow> ('m, int list, exn) world
     \<Rightarrow> (('m, int list, exn) world \<times> (exn, unit) outcome) option" where
  "multiple_operations M synchronized_vector w =
     (case lock M synchronized_vector w of
        (w1, Returns ptr) \<Rightarrow>
          (case operator_arrow ptr of
             None \<Rightarrow> None
           | Some a \<Rightarrow>
               (case multiple_operations_body a w1 of
                  (w2, Blocks) \<Rightarrow> Some (w2, Blocks)
                | (w2, r) \<Rightarrow>
                    (case locked_ptr_dtor M ptr w2 of
                       (w3, Blocks) \<Rightarrow> Some (w3, Blocks)
                     | (w3, d) \<Rightarrow> Some (w3, r))))
      | (w1, Raises e) \<Rightarrow> Some (w1, Raises e)
      | (w1, Blocks) \<Rightarrow> Some (w1, Blocks))"

text \<open>
  The test \<^verbatim>\<open>nullptr_does_not_lock\<close> (lines 148 to 152) calls \<^verbatim>\<open>m.try_lock()\<close> and
  \<^verbatim>\<open>m.unlock()\<close> itself, on the \<^verbatim>\<open>std::mutex\<close> at \<open>m\<close>, while the null guard lives; the
  result is the store after the guard's destruction and the value that
  \<^verbatim>\<open>BOOST_CHECK\<close> sees.
\<close>

definition nullptr_does_not_lock ::
  "addr \<Rightarrow> (bool, 'r, 'e) world \<Rightarrow> ((bool, 'r, 'e) world \<times> ('e, unit) outcome) \<times> bool" where
  "nullptr_does_not_lock m w =
     (case locked_ptr_ctor False std_mutex None m w of
        (w1, Returns ptr) \<Rightarrow>
          (case std_mutex_try_lock (mutexes w1 m) of
             (held, ok) \<Rightarrow>
               (case mutex_unlock (std_mutex :: (bool, 'e) mutex_type) held of
                  (free, u) \<Rightarrow>
                    (locked_ptr_dtor std_mutex ptr (w1\<lparr>mutexes := (mutexes w1)(m := free)\<rparr>), ok)))
      | (w1, Raises e) \<Rightarrow> ((w1, Raises e), False)
      | (w1, Blocks) \<Rightarrow> ((w1, Blocks), False))"

text \<open>Stores to start from: every mutex default-constructed, nothing logged.\<close>

definition fresh :: "'m \<Rightarrow> 'r \<Rightarrow> ('m, 'r, 'e) world" where
  "fresh m r = \<lparr>mutexes = (\<lambda>a. m), resources = (\<lambda>a. r), calls = []\<rparr>"


text \<open>
  Template arguments of the tests: a copyable type such as \<^verbatim>\<open>int\<close>, \<^verbatim>\<open>child\<close> or a
  \<^verbatim>\<open>mock_mutex\<close>, plain, const-qualified, as an lvalue reference, and as an lvalue
  reference to const.
\<close>

definition by_value :: tparam where
  "by_value =
     \<lparr>is_lvalue_reference = False, is_const = False,
      is_copy_constructible = True, is_move_constructible = True\<rparr>"

definition const_by_value :: tparam where
  "const_by_value =
     \<lparr>is_lvalue_reference = False, is_const = True,
      is_copy_constructible = True, is_move_constructible = True\<rparr>"

definition lvalue_ref :: tparam where
  "lvalue_ref =
     \<lparr>is_lvalue_reference = True, is_const = False,
      is_copy_constructible = True, is_move_constructible = True\<rparr>"

definition const_lvalue_ref :: tparam where
  "const_lvalue_ref =
     \<lparr>is_lvalue_reference = True, is_const = True,
      is_copy_constructible = True, is_move_constructible = True\<rparr>"

text \<open>The counting mutex as default-constructed: both counters zero.\<close>

definition counters_zero :: mock_mutex_count where
  "counters_zero = \<lparr>count_lock = 0, count_unlock = 0\<rparr>"

text \<open>
  The declarations of the test \<^verbatim>\<open>conversion\<close>, with \<^verbatim>\<open>std::mutex\<close> as the lock
  (\<^verbatim>\<open>child\<close> and \<^verbatim>\<open>parent\<close> have no data members):
  \<^verbatim>\<open>boost::synchronized<child> child_instance;\<close> (line 115),
  \<^verbatim>\<open>boost::synchronized<parent &> base_reference( child_instance );\<close> (line 116) and
  \<^verbatim>\<open>boost::synchronized<parent const &> base_const_reference (const_child);\<close>
  (line 120), where \<^verbatim>\<open>const_child\<close> is a const reference to \<^verbatim>\<open>child_instance\<close>.
\<close>

definition child_instance :: "((bool, unit, exn) world \<times> synchronized) option" where
  "child_instance =
     synchronized_default_ctor (instantiate by_value None) 0 0 False () (fresh False ())"

definition base_reference :: "((bool, unit, exn) world \<times> synchronized) option" where
  "base_reference =
     (case child_instance of
        None \<Rightarrow> None
      | Some (w, child) \<Rightarrow>
          synchronized_convert (instantiate lvalue_ref None) 1 1 child w)"

definition base_const_reference :: "((bool, unit, exn) world \<times> synchronized) option" where
  "base_const_reference =
     (case child_instance of
        None \<Rightarrow> None
      | Some (w, const_child) \<Rightarrow>
          synchronized_convert_const (instantiate const_lvalue_ref None) 2 2 const_child w)"

text \<open>
  A mutable wrapper over a const-qualified resource type, with the default lock:
  \<^verbatim>\<open>boost::synchronized<test const> const_resource {test()};\<close>, where \<^verbatim>\<open>test\<close> is
  the struct of the test \<^verbatim>\<open>maintain_const_correctness\<close> (it has no data members).
\<close>

definition const_resource :: "((bool, unit, exn) world \<times> synchronized) option" where
  "const_resource =
     synchronized_ctor1 (instantiate const_by_value None) 0 0 False (Rvalue 1 ())
       (fresh False ())"

text \<open>
  \<^verbatim>\<open>synchronized_vector {std::vector<int>(5, 42)}\<close> of the test \<^verbatim>\<open>usage\<close> (line 18),
  here with the counting mutex as the wrapper's own, default-constructed mutex.
\<close>

definition synchronized_vector ::
  "((mock_mutex_count, int list, exn) world \<times> synchronized) option" where
  "synchronized_vector =
     synchronized_ctor1 (instantiate by_value (Some by_value)) 0 0 counters_zero
       (Rvalue 1 (replicate 5 42)) (fresh counters_zero [])"


section \<open>The access operation acquires the lock\<close>

text \<open>
  Claim C1. Take any wrapper, any mutex type and any store. If the mutex's \<^verbatim>\<open>lock()\<close>
  returns normally on the wrapper's mutex, then both overloads of the wrapper's
  \<^verbatim>\<open>lock()\<close> return a guard, after exactly one acquire call on the wrapper's mutex (the
  store is changed by that one call and the log grows by that one call). The guard is
  Owning: its pointer is the address of the wrapper's resource member, not null, and it
  refers to the wrapper's mutex. Conversely, whenever an overload returns a guard at all,
  the guard is Owning and the one acquire call has been made and has returned.
\<close>

theorem lock_returns_owning:
  fixes M :: "('m, 'e) mutex_type" and w :: "('m, 'r, 'e) world"
  shows
    "(mutex_lock M (mutexes w (mutex_s s)) = (m', Returns ()) \<longrightarrow>
        (\<exists>g. lock M s w =
                (w\<lparr>mutexes := (mutexes w)(mutex_s s := m'),
                   calls := calls w @ [Lock_call (mutex_s s) (Returns ())]\<rparr>, Returns g)
            \<and> Owning g \<and> ptr_p g = Some (resource_s s) \<and> mutex_p g = mutex_s s)
      \<and> (\<exists>g. lock_const M s w =
                (w\<lparr>mutexes := (mutexes w)(mutex_s s := m'),
                   calls := calls w @ [Lock_call (mutex_s s) (Returns ())]\<rparr>, Returns g)
            \<and> Owning g \<and> ptr_p g = Some (resource_s s) \<and> mutex_p g = mutex_s s))
   \<and> (\<forall>w' g. lock M s w = (w', Returns g) \<or> lock_const M s w = (w', Returns g) \<longrightarrow>
           Owning g \<and> ptr_p g = Some (resource_s s) \<and> mutex_p g = mutex_s s
           \<and> calls w' = calls w @ [Lock_call (mutex_s s) (Returns ())]
           \<and> mutex_lock M (mutexes w (mutex_s s)) = (mutexes w' (mutex_s s), Returns ()))"
  by (auto simp: lock_def lock_const_def locked_ptr_ctor_def call_lock_def Owning_def
           split: prod.splits outcome.splits)

theorem lock_returns_owning_witness:
  "mutex_lock mock_mutex_move_ptr
      (mutexes (fresh counters_zero 42 :: (mock_mutex_count, int, exn) world) 1)
     = (\<lparr>count_lock = 1, count_unlock = 0\<rparr>, Returns ())
   \<and> (\<exists>g. snd (lock mock_mutex_move_ptr
                  \<lparr>Resource = by_value, Mutex = by_value, mutex_s = 1, resource_s = 2\<rparr>
                  (fresh counters_zero 42 :: (mock_mutex_count, int, exn) world))
            = Returns g \<and> Owning g \<and> ptr_p g = Some 2)"
proof -
  have h: "mutex_lock mock_mutex_move_ptr
      (mutexes (fresh counters_zero 42 :: (mock_mutex_count, int, exn) world)
         (mutex_s \<lparr>Resource = by_value, Mutex = by_value, mutex_s = 1, resource_s = 2\<rparr>))
     = (\<lparr>count_lock = 1, count_unlock = 0\<rparr>, Returns ())"
    by (simp add: mock_mutex_move_ptr_def fresh_def counters_zero_def)
  from lock_returns_owning [THEN conjunct1, rule_format, OF h, THEN conjunct1] h
  show ?thesis by auto
qed


section \<open>Moving a guard\<close>

text \<open>
  Claim C2. Move-constructing from an Owning guard leaves the store as it is (no call on
  any mutex), yields an Owning guard with the same resource pointer and the same mutex,
  and leaves the source Released. For a guard obtained from a wrapper whose mutex is the
  counting mutex of the test \<^verbatim>\<open>move_ptr\<close>: after two moves (the second one from the
  first guard again, as the test does, or from the guard the first move made) and the end
  of scope of all three objects in reverse order of construction, the acquire counter and
  the release counter have each gone up by exactly one, and the log holds one acquire call
  and one release call.
\<close>

theorem move_transfers_hold:
  fixes w :: "('m, 'r, 'e) world" and v :: "(mock_mutex_count, 'r, 'e) world"
  shows
  "(Owning g \<longrightarrow>
      (\<exists>n g'. locked_ptr_move g w = (w, n, g')
         \<and> Owning n \<and> ptr_p n = ptr_p g \<and> mutex_p n = mutex_p g \<and> Released g'))
   \<and> (\<forall>second \<in> {Move 0, Move 1}.
        run mock_mutex_move_ptr [Acquire s, Move 0, second, Destroy 2, Destroy 1, Destroy 0] (v, [])
          = ((v\<lparr>mutexes := (mutexes v)(mutex_s s :=
                    (mutexes v (mutex_s s))
                      \<lparr>count_lock := count_lock (mutexes v (mutex_s s)) + 1,
                       count_unlock := count_unlock (mutexes v (mutex_s s)) + 1\<rparr>),
                 calls := calls v @ [Lock_call (mutex_s s) (Returns ()),
                                     Unlock_call (mutex_s s) (Returns ())]\<rparr>, []),
             [Returns (), Returns (), Returns (), Returns (), Returns (), Returns ()]))"
  by (simp add: locked_ptr_move_def Owning_def Released_def lock_def locked_ptr_ctor_def
        call_lock_def call_unlock_def enter_def locked_ptr_dtor_def try_catch_all_def
        mock_mutex_move_ptr_def)


theorem move_transfers_hold_witness:
  "Owning \<lparr>Resource_const = False, ptr_p = Some 0, mutex_p = 0\<rparr>
   \<and> (\<exists>n g'. locked_ptr_move \<lparr>Resource_const = False, ptr_p = Some 0, mutex_p = 0\<rparr>
                (fresh counters_zero 42 :: (mock_mutex_count, int, exn) world)
              = (fresh counters_zero 42, n, g') \<and> Owning n \<and> ptr_p n = Some 0 \<and> Released g')
   \<and> Move 0 \<in> {Move 0, Move 1}
   \<and> mutexes (fst (fst (run mock_mutex_move_ptr
          [Acquire \<lparr>Resource = by_value, Mutex = by_value, mutex_s = 0, resource_s = 0\<rparr>,
           Move 0, Move 0, Destroy 2, Destroy 1, Destroy 0]
          (fresh counters_zero 42 :: (mock_mutex_count, int, exn) world, [])))) 0
       = \<lparr>count_lock = 1, count_unlock = 1\<rparr>"
proof -
  have h: "Owning \<lparr>Resource_const = False, ptr_p = Some 0, mutex_p = 0\<rparr>"
    by (simp add: Owning_def)
  have m: "Move 0 \<in> {Move 0, Move 1}"
    by simp
  note t = move_transfers_hold [of "\<lparr>Resource_const = False, ptr_p = Some 0, mutex_p = 0\<rparr>"
      "fresh counters_zero 42 :: (mock_mutex_count, int, exn) world"
      "\<lparr>Resource = by_value, Mutex = by_value, mutex_s = 0, resource_s = 0\<rparr>"
      "fresh counters_zero 42 :: (mock_mutex_count, int, exn) world"]
  from t [THEN conjunct1, rule_format, OF h]
  have a: "\<exists>n g'. locked_ptr_move \<lparr>Resource_const = False, ptr_p = Some 0, mutex_p = 0\<rparr>
                (fresh counters_zero 42 :: (mock_mutex_count, int, exn) world)
              = (fresh counters_zero 42, n, g') \<and> Owning n \<and> ptr_p n = Some 0 \<and> Released g'"
    by auto
  from t [THEN conjunct2, rule_format, OF m]
  have b: "mutexes (fst (fst (run mock_mutex_move_ptr
          [Acquire \<lparr>Resource = by_value, Mutex = by_value, mutex_s = 0, resource_s = 0\<rparr>,
           Move 0, Move 0, Destroy 2, Destroy 1, Destroy 0]
          (fresh counters_zero 42 :: (mock_mutex_count, int, exn) world, [])))) 0
       = \<lparr>count_lock = 1, count_unlock = 1\<rparr>"
    by (simp add: fresh_def counters_zero_def)
  from h a m b show ?thesis by blast
qed


section \<open>Failures of the mutex\<close>

text \<open>
  Claim C3. When the destructor of an Owning guard calls \<^verbatim>\<open>unlock()\<close> and the call
  raises an error, the destructor returns normally: the error ends inside it. The release
  call is made once and not repeated. In the scenario of the test
  \<^verbatim>\<open>avoid_undefined_behaviour_if_unlock_throws\<close> both the construction and the end of
  scope complete normally, so the code after the block runs.
\<close>

theorem release_failure_discarded:
  fixes M :: "('m, 'e) mutex_type" and w :: "('m, 'r, 'e) world"
    and v :: "(unit, 'r, exn) world"
  shows
  "(Owning g \<and> mutex_unlock M (mutexes w (mutex_p g)) = (m', Raises e) \<longrightarrow>
      locked_ptr_dtor M g w =
        (w\<lparr>mutexes := (mutexes w)(mutex_p g := m'),
           calls := calls w @ [Unlock_call (mutex_p g) (Raises e)]\<rparr>, Returns ()))
   \<and> (\<exists>v'. run mock_mutex_unlock_throws [Construct False (Some answer) m, Destroy 0] (v, [])
               = ((v', []), [Returns (), Returns ()])
           \<and> calls v' = calls v @
               [Lock_call m (Returns ()),
                Unlock_call m (Raises (Runtime_error ''out of cheese exception''))])"
  by (simp add: Owning_def locked_ptr_dtor_def try_catch_all_def call_unlock_def
        locked_ptr_ctor_def call_lock_def enter_def mock_mutex_unlock_throws_def)

theorem release_failure_discarded_witness:
  "Owning \<lparr>Resource_const = False, ptr_p = Some 0, mutex_p = 0\<rparr>
   \<and> mutex_unlock mock_mutex_unlock_throws (mutexes (fresh () 42 :: (unit, int, exn) world) 0)
       = ((), Raises (Runtime_error ''out of cheese exception''))
   \<and> snd (locked_ptr_dtor mock_mutex_unlock_throws
            \<lparr>Resource_const = False, ptr_p = Some 0, mutex_p = 0\<rparr>
            (fresh () 42 :: (unit, int, exn) world)) = Returns ()"
proof -
  have h: "Owning \<lparr>Resource_const = False, ptr_p = Some 0, mutex_p = 0\<rparr>
     \<and> mutex_unlock mock_mutex_unlock_throws
         (mutexes (fresh () 42 :: (unit, int, exn) world)
            (mutex_p \<lparr>Resource_const = False, ptr_p = Some 0, mutex_p = 0\<rparr>))
       = ((), Raises (Runtime_error ''out of cheese exception''))"
    by (simp add: Owning_def mock_mutex_unlock_throws_def)
  from release_failure_discarded [THEN conjunct1, rule_format, OF h] h
  show ?thesis by simp
qed

text \<open>
  Claim C4. When the wrapper's \<^verbatim>\<open>lock()\<close> (either overload) calls the mutex's
  \<^verbatim>\<open>lock()\<close> and that call raises an error, the same error leaves the wrapper's
  \<^verbatim>\<open>lock()\<close>, no guard comes into being (the caller's list of live guards is as before),
  the acquire call has been made once and not repeated, no release call has been made, and
  the mutex is as the failed call left it.
\<close>

theorem acquire_failure_propagates:
  fixes M :: "('m, 'e) mutex_type" and w :: "('m, 'r, 'e) world"
  shows
  "mutex_lock M (mutexes w (mutex_s s)) = (m', Raises e) \<longrightarrow>
     lock M s w =
       (w\<lparr>mutexes := (mutexes w)(mutex_s s := m'),
          calls := calls w @ [Lock_call (mutex_s s) (Raises e)]\<rparr>, Raises e)
     \<and> lock_const M s w =
       (w\<lparr>mutexes := (mutexes w)(mutex_s s := m'),
          calls := calls w @ [Lock_call (mutex_s s) (Raises e)]\<rparr>, Raises e)
     \<and> step M (Acquire s) (w, gs) =
       ((w\<lparr>mutexes := (mutexes w)(mutex_s s := m'),
           calls := calls w @ [Lock_call (mutex_s s) (Raises e)]\<rparr>, gs), Raises e)
     \<and> step M (Acquire_const s) (w, gs) =
       ((w\<lparr>mutexes := (mutexes w)(mutex_s s := m'),
           calls := calls w @ [Lock_call (mutex_s s) (Raises e)]\<rparr>, gs), Raises e)
     \<and> (\<forall>a. released a (calls w @ [Lock_call (mutex_s s) (Raises e)]) = released a (calls w))"
  by (simp add: lock_def lock_const_def locked_ptr_ctor_def call_lock_def enter_def released_def)

theorem acquire_failure_propagates_witness:
  "mutex_lock mock_mutex_lock_throws (mutexes (fresh counters_zero 42 :: (mock_mutex_count, int, exn) world) 0)
       = (\<lparr>count_lock = 1, count_unlock = 0\<rparr>, Raises (Runtime_error ''lock failed''))
   \<and> snd (lock mock_mutex_lock_throws
            \<lparr>Resource = by_value, Mutex = by_value, mutex_s = 0, resource_s = 0\<rparr>
            (fresh counters_zero 42 :: (mock_mutex_count, int, exn) world))
       = Raises (Runtime_error ''lock failed'')
   \<and> mutexes (fst (lock mock_mutex_lock_throws
            \<lparr>Resource = by_value, Mutex = by_value, mutex_s = 0, resource_s = 0\<rparr>
            (fresh counters_zero 42 :: (mock_mutex_count, int, exn) world))) 0
       = \<lparr>count_lock = 1, count_unlock = 0\<rparr>"
proof -
  have h: "mutex_lock mock_mutex_lock_throws
      (mutexes (fresh counters_zero 42 :: (mock_mutex_count, int, exn) world)
         (mutex_s \<lparr>Resource = by_value, Mutex = by_value, mutex_s = 0, resource_s = 0\<rparr>))
       = (\<lparr>count_lock = 1, count_unlock = 0\<rparr>, Raises (Runtime_error ''lock failed''))"
    by (simp add: mock_mutex_lock_throws_def fresh_def counters_zero_def)
  from acquire_failure_propagates [rule_format, OF h, THEN conjunct1] h
  show ?thesis by simp
qed


section \<open>The empty guard\<close>

text \<open>
  Claim C5. Constructing a guard from a null pointer makes no call on the mutex and leaves
  the store unchanged; the guard is Released, and its destruction again makes no call and
  leaves the store unchanged. In the test \<^verbatim>\<open>nullptr_does_not_lock\<close>, with a
  \<^verbatim>\<open>std::mutex\<close> that nobody holds, the \<^verbatim>\<open>try_lock()\<close> made while the null guard is
  alive succeeds.
\<close>

theorem null_guard_no_effect:
  fixes M :: "('m, 'e) mutex_type" and w :: "('m, 'r, 'e) world"
    and v :: "(bool, 'r, 'e) world"
  shows
  "(\<exists>g. locked_ptr_ctor c M None mutex w = (w, Returns g)
        \<and> Released g \<and> \<not> Owning g
        \<and> locked_ptr_dtor M g w = (w, Returns ()))
   \<and> run M [Construct c None mutex, Destroy 0] (w, []) = ((w, []), [Returns (), Returns ()])
   \<and> (\<not> mutexes v m \<longrightarrow> nullptr_does_not_lock m v = ((v, Returns ()), True))"
  by (auto simp: locked_ptr_ctor_def Released_def Owning_def locked_ptr_dtor_def enter_def
        nullptr_does_not_lock_def std_mutex_try_lock_def std_mutex_def fun_upd_idem)

theorem null_guard_no_effect_witness:
  "\<not> mutexes (fresh False 0 :: (bool, int, exn) world) 0
   \<and> snd (nullptr_does_not_lock 0 (fresh False 0 :: (bool, int, exn) world))"
proof -
  have h: "\<not> mutexes (fresh False 0 :: (bool, int, exn) world) 0"
    by (simp add: fresh_def)
  from null_guard_no_effect [THEN conjunct2, THEN conjunct2, rule_format, OF h] h
  show ?thesis by simp
qed


section \<open>By value or by reference\<close>








section \<open>Aliasing wrappers\<close>

text \<open>
  Claim C7. The claim is what the header documents (lines 111 to 116) and what the tests
  \<^verbatim>\<open>usage\<close> and \<^verbatim>\<open>conversion\<close> declare, but the header as it stands does not do it.
  The aliasing wrapper \<^verbatim>\<open>synchronized<parent &>\<close> has the default lock type
  \<^verbatim>\<open>std::mutex&\<close>, a reference, and for a reference lock type the class is ill-formed
  (line 215). Evaluating the declarations of the test \<^verbatim>\<open>conversion\<close>:
  \<^verbatim>\<open>child_instance\<close> is built, with its own lock, while \<^verbatim>\<open>base_reference\<close> and
  \<^verbatim>\<open>base_const_reference\<close> are not. In general neither converting constructor, nor
  the two-argument constructor they delegate to, builds a wrapper of an instantiation
  whose lock type is a reference, whatever the resource type, the wrapper converted from
  and the store.
\<close>

theorem aliasing_conversion_ill_formed:
  fixes w :: "('m, 'r, 'e) world"
  shows
  "map_option snd child_instance
     = Some \<lparr>Resource = by_value, Mutex = default_Mutex by_value, mutex_s = 0, resource_s = 0\<rparr>
   \<and> instantiate lvalue_ref None = (lvalue_ref, default_Mutex lvalue_ref)
   \<and> is_lvalue_reference (default_Mutex lvalue_ref)
   \<and> base_reference = None
   \<and> base_const_reference = None
   \<and> synchronized_convert (R, M\<lparr>is_lvalue_reference := True\<rparr>) this_mutex this_resource other w = None
   \<and> synchronized_convert_const (R, M\<lparr>is_lvalue_reference := True\<rparr>) this_mutex this_resource other w = None
   \<and> synchronized_ctor2 (R, M\<lparr>is_lvalue_reference := True\<rparr>) this_mutex this_resource resource mutex w = None"
  by (simp add: child_instance_def base_reference_def base_const_reference_def
        synchronized_default_ctor_def synchronized_convert_def synchronized_convert_const_def
        synchronized_ctor2_def well_formed_def instantiate_def default_Mutex_def
        by_value_def lvalue_ref_def const_lvalue_ref_def)


section \<open>Const correctness\<close>

text \<open>
  Claim C8, as stated, fails for a wrapper whose resource type is itself const-qualified:
  \<^verbatim>\<open>const_resource\<close> is a \<^verbatim>\<open>synchronized<test const>\<close> that is not const, so
  \<^verbatim>\<open>const_resource.lock()\<close> is the overload for mutable wrappers, and the guard it
  returns points to const and selects the const overload of \<^verbatim>\<open>is_const\<close>, which
  answers true.
\<close>

theorem mutable_wrapper_const_resource_counterexample:
  "map_option snd const_resource
     = Some \<lparr>Resource = const_by_value, Mutex = default_Mutex const_by_value,
             mutex_s = 0, resource_s = 0\<rparr>
   \<and> snd (lock std_mutex (snd (the const_resource)) (fst (the const_resource)))
       = Returns \<lparr>Resource_const = True, ptr_p = Some 0, mutex_p = 0\<rparr>
   \<and> overload_resolution (Resource_const \<lparr>Resource_const = True, ptr_p = Some 0, mutex_p = 0\<rparr>)
       = Const_overload
   \<and> arrow_is_const \<lparr>Resource_const = True, ptr_p = Some 0, mutex_p = 0\<rparr> = Some True"
  by (simp add: const_resource_def synchronized_ctor1_def well_formed_def init_member_def
        instantiate_def default_Mutex_def const_by_value_def
        lock_def locked_ptr_ctor_def call_lock_def std_mutex_def fresh_def
        overload_resolution_def arrow_is_const_def operator_arrow_def test_is_const_def)

text \<open>
  Claim C8, amended. A guard returned by \<^verbatim>\<open>lock() const\<close> points to const: it selects
  the const overload, and only const-qualified member functions can be called through it.
  A guard returned by \<^verbatim>\<open>lock()\<close> on a mutable wrapper points to const exactly when the
  wrapper's resource type is const-qualified: it selects the non-const overload when the
  resource type is not const-qualified, and the const overload when it is. Both overloads
  acquire the wrapper's own mutex, with the same effect on the store.
\<close>

theorem const_correctness:
  fixes M :: "('m, 'e) mutex_type" and w :: "('m, 'r, 'e) world"
  shows
  "(\<forall>w' g. lock_const M s w = (w', Returns g) \<longrightarrow>
       Resource_const g
       \<and> overload_resolution (Resource_const g) = Const_overload
       \<and> arrow_is_const g = Some True
       \<and> (\<forall>member_const. callable (Resource_const g) member_const \<longrightarrow> member_const)
       \<and> mutex_p g = mutex_s s
       \<and> calls w' = calls w @ [Lock_call (mutex_s s) (Returns ())])
   \<and> (\<forall>w' g. lock M s w = (w', Returns g) \<longrightarrow>
       Resource_const g = is_const (Resource s)
       \<and> overload_resolution (Resource_const g)
           = (if is_const (Resource s) then Const_overload else Non_const_overload)
       \<and> arrow_is_const g = Some (is_const (Resource s))
       \<and> mutex_p g = mutex_s s
       \<and> calls w' = calls w @ [Lock_call (mutex_s s) (Returns ())])
   \<and> fst (lock M s w) = fst (lock_const M s w)"
  by (auto simp: lock_def lock_const_def locked_ptr_ctor_def call_lock_def
        overload_resolution_def arrow_is_const_def operator_arrow_def test_is_const_def
        callable_def
        split: prod.splits outcome.splits)

theorem const_correctness_witness:
  "lock_const std_mutex \<lparr>Resource = by_value, Mutex = by_value, mutex_s = 0, resource_s = 0\<rparr>
      (fresh False () :: (bool, unit, exn) world)
     = (\<lparr>mutexes = (\<lambda>a. False)(0 := True), resources = (\<lambda>a. ()),
         calls = [Lock_call 0 (Returns ())]\<rparr>,
        Returns \<lparr>Resource_const = True, ptr_p = Some 0, mutex_p = 0\<rparr>)
   \<and> lock std_mutex \<lparr>Resource = by_value, Mutex = by_value, mutex_s = 0, resource_s = 0\<rparr>
      (fresh False () :: (bool, unit, exn) world)
     = (\<lparr>mutexes = (\<lambda>a. False)(0 := True), resources = (\<lambda>a. ()),
         calls = [Lock_call 0 (Returns ())]\<rparr>,
        Returns \<lparr>Resource_const = False, ptr_p = Some 0, mutex_p = 0\<rparr>)
   \<and> arrow_is_const \<lparr>Resource_const = True, ptr_p = Some 0, mutex_p = 0\<rparr> = Some True
   \<and> arrow_is_const \<lparr>Resource_const = False, ptr_p = Some 0, mutex_p = 0\<rparr> = Some False"
proof -
  have c: "lock_const std_mutex \<lparr>Resource = by_value, Mutex = by_value, mutex_s = 0, resource_s = 0\<rparr>
      (fresh False () :: (bool, unit, exn) world)
     = (\<lparr>mutexes = (\<lambda>a. False)(0 := True), resources = (\<lambda>a. ()),
         calls = [Lock_call 0 (Returns ())]\<rparr>,
        Returns \<lparr>Resource_const = True, ptr_p = Some 0, mutex_p = 0\<rparr>)"
    by (simp add: lock_const_def locked_ptr_ctor_def call_lock_def std_mutex_def fresh_def)
  have m: "lock std_mutex \<lparr>Resource = by_value, Mutex = by_value, mutex_s = 0, resource_s = 0\<rparr>
      (fresh False () :: (bool, unit, exn) world)
     = (\<lparr>mutexes = (\<lambda>a. False)(0 := True), resources = (\<lambda>a. ()),
         calls = [Lock_call 0 (Returns ())]\<rparr>,
        Returns \<lparr>Resource_const = False, ptr_p = Some 0, mutex_p = 0\<rparr>)"
    by (simp add: lock_def locked_ptr_ctor_def call_lock_def std_mutex_def fresh_def by_value_def)
  from const_correctness [THEN conjunct1, rule_format, OF c]
  have a: "arrow_is_const \<lparr>Resource_const = True, ptr_p = Some 0, mutex_p = 0\<rparr> = Some True"
    by simp
  from const_correctness [THEN conjunct2, THEN conjunct1, rule_format, OF m]
  have b: "arrow_is_const \<lparr>Resource_const = False, ptr_p = Some 0, mutex_p = 0\<rparr> = Some False"
    by (simp add: by_value_def)
  from c m a b show ?thesis by blast
qed

section \<open>The usage example\<close>

text \<open>
  Claim C9. The wrapper holds the sequence 42, 42, 42, 42, 42 and its counting mutex has
  both counters at zero. The block of the test \<^verbatim>\<open>usage\<close> (acquire a guard, set index 3
  to 4, sort through the guard, leave the scope) completes normally. When the guard has
  left the scope, the acquire counter and the release counter both read 1 and the log
  holds one acquire and one release call; a fresh \<^verbatim>\<open>lock()\<close> then returns a guard
  through which the sequence reads 4, 42, 42, 42, 42.
\<close>

theorem usage_example:
  "\<exists>w0 s w1.
     synchronized_vector = Some (w0, s)
     \<and> resources w0 (resource_s s) = [42, 42, 42, 42, 42]
     \<and> mutexes w0 (mutex_s s) = \<lparr>count_lock = 0, count_unlock = 0\<rparr>
     \<and> multiple_operations mock_mutex_move_ptr s w0 = Some (w1, Returns ())
     \<and> mutexes w1 (mutex_s s) = \<lparr>count_lock = 1, count_unlock = 1\<rparr>
     \<and> calls w1 = [Lock_call (mutex_s s) (Returns ()), Unlock_call (mutex_s s) (Returns ())]
     \<and> resources w1 (resource_s s) = [4, 42, 42, 42, 42]
     \<and> (\<exists>w2 g. lock mock_mutex_move_ptr s w1 = (w2, Returns g)
            \<and> operator_star g w2 = Some [4, 42, 42, 42, 42])"
  by (simp add: synchronized_vector_def synchronized_ctor1_def well_formed_def init_member_def
        instantiate_def by_value_def fresh_def counters_zero_def multiple_operations_def
        multiple_operations_body_def lock_def locked_ptr_ctor_def call_lock_def
        mock_mutex_move_ptr_def operator_arrow_def operator_star_def vector_at_assign_def
        range_sort_def locked_ptr_dtor_def try_catch_all_def call_unlock_def
        eval_nat_numeral)

section \<open>Releases never outnumber acquisitions\<close>

text \<open>
  Along any run of guard operations, for every mutex, the release calls made so far and the
  live guards that hold the mutex add up to the acquire calls that have returned. The
  lemmas follow the operations one by one.
\<close>

lemma holds_append: "holds a (xs @ ys) = holds a xs + holds a ys"
  by (simp add: holds_def)

lemma holds_single: "holds a [g] = (if Owning g \<and> mutex_p g = a then 1 else 0)"
  by (simp add: holds_def)

lemma holds_nth:
  assumes "i < length gs"
  shows "holds a gs = holds a (take i gs) + holds a [gs ! i] + holds a (drop (Suc i) gs)"
proof -
  from assms have "gs = take i gs @ [gs ! i] @ drop (Suc i) gs"
    by (simp add: id_take_nth_drop)
  then have "holds a gs = holds a (take i gs @ [gs ! i] @ drop (Suc i) gs)"
    by simp
  then show ?thesis
    by (simp only: holds_append)
qed

lemma holds_update:
  assumes "i < length gs"
  shows "holds a (gs[i := g]) = holds a (take i gs) + holds a [g] + holds a (drop (Suc i) gs)"
proof -
  from assms have "gs[i := g] = take i gs @ [g] @ drop (Suc i) gs"
    by (simp add: upd_conv_take_nth_drop)
  then show ?thesis
    by (simp only: holds_append)
qed

lemma acquired_snoc:
  "acquired a (log @ [c]) = acquired a log + (if acquire_call a c then 1 else 0)"
  by (simp add: acquired_def)

lemma released_snoc:
  "released a (log @ [c]) = released a log + (if release_call a c then 1 else 0)"
  by (simp add: released_def)

lemma ctor_balanced:
  assumes "released a (calls w) + holds a gs = acquired a (calls w)"
    and "enter (locked_ptr_ctor c M ptr mutex w) gs = ((w', gs'), r)"
  shows "released a (calls w') + holds a gs' = acquired a (calls w')"
  using assms
  by (auto simp: enter_def locked_ptr_ctor_def Let_def call_lock_def holds_append holds_single
        acquired_snoc released_snoc Owning_def
        split: if_splits prod.splits outcome.splits)

lemma move_balanced:
  assumes "released a (calls w) + holds a gs = acquired a (calls w)"
    and "i < length gs"
    and "locked_ptr_move (gs ! i) w = (w', new, other)"
  shows "released a (calls w') + holds a (gs[i := other] @ [new]) = acquired a (calls w')"
proof -
  from assms(3) have w': "w' = w" and new: "Owning new = Owning (gs ! i)" "mutex_p new = mutex_p (gs ! i)"
    and other: "\<not> Owning other"
    by (auto simp: locked_ptr_move_def Owning_def)
  have "holds a (gs[i := other] @ [new]) = holds a gs"
    using assms(2) new other
    by (simp add: holds_append holds_update holds_nth [OF assms(2), of a] holds_single)
  with assms(1) w' show ?thesis by simp
qed

lemma dtor_balanced:
  assumes "released a (calls w) + holds a gs = acquired a (calls w)"
    and "i < length gs"
    and "locked_ptr_dtor M (gs ! i) w = (w', r)"
  shows "released a (calls w') + holds a (take i gs @ drop (Suc i) gs) = acquired a (calls w')"
  using assms(1,3) holds_nth [OF assms(2), of a]
  by (auto simp: locked_ptr_dtor_def try_catch_all_def call_unlock_def holds_append holds_single
        acquired_snoc released_snoc Owning_def
        split: if_splits prod.splits outcome.splits)

lemma step_balanced:
  assumes "released a (calls w) + holds a gs = acquired a (calls w)"
    and "step M x (w, gs) = ((w', gs'), r)"
  shows "released a (calls w') + holds a gs' = acquired a (calls w')"
proof (cases x)
  case (Construct c ptr mutex)
  with assms show ?thesis by (simp add: ctor_balanced)
next
  case (Acquire s)
  with assms show ?thesis by (simp add: lock_def ctor_balanced)
next
  case (Acquire_const s)
  with assms show ?thesis by (simp add: lock_const_def ctor_balanced)
next
  case (Move i)
  with assms show ?thesis
    by (auto simp: move_balanced split: if_splits prod.splits)
next
  case (Destroy i)
  with assms show ?thesis
    by (auto simp: dtor_balanced split: if_splits prod.splits)
qed

lemma run_balanced:
  assumes "released a (calls w) + holds a gs = acquired a (calls w)"
    and "run M xs (w, gs) = ((w', gs'), rs)"
  shows "released a (calls w') + holds a gs' = acquired a (calls w')"
  using assms
proof (induction xs arbitrary: w gs rs)
  case Nil
  then show ?case by simp
next
  case (Cons x xs)
  obtain w1 gs1 r where st: "step M x (w, gs) = ((w1, gs1), r)"
    by (metis surj_pair)
  from step_balanced [OF Cons.prems(1) st]
  have bal: "released a (calls w1) + holds a gs1 = acquired a (calls w1)" .
  show ?case
  proof (cases r)
    case Blocks
    with Cons.prems(2) st bal show ?thesis by simp
  next
    case (Returns u)
    with Cons.prems(2) st obtain rs' where "run M xs (w1, gs1) = ((w', gs'), rs')"
      by (auto split: prod.splits)
    from Cons.IH [OF bal this] show ?thesis .
  next
    case (Raises e)
    with Cons.prems(2) st obtain rs' where "run M xs (w1, gs1) = ((w', gs'), rs')"
      by (auto split: prod.splits)
    from Cons.IH [OF bal this] show ?thesis .
  qed
qed

text \<open>
  Claim C10. Move-constructing from a Released guard changes nothing in the store, makes
  no call, and yields a second Released guard; destroying either of the two makes no call
  and changes nothing. In general, whatever guard operations a caller performs, in
  whatever order, from a state in which releases and live holds account for the
  acquisitions (the empty state is one), they still do so afterwards; so the release calls
  on a mutex never outnumber the acquire calls on it that returned.
\<close>

theorem released_move_harmless:
  fixes M :: "('m, 'e) mutex_type" and w :: "('m, 'r, 'e) world"
  shows
  "(Released g \<longrightarrow>
      (\<exists>n g'. locked_ptr_move g w = (w, n, g')
         \<and> Released n \<and> Released g'
         \<and> locked_ptr_dtor M n w = (w, Returns ())
         \<and> locked_ptr_dtor M g' w = (w, Returns ())))
   \<and> (released a (calls w) + holds a gs = acquired a (calls w)
        \<and> run M xs (w, gs) = ((w', gs'), rs) \<longrightarrow>
          released a (calls w') + holds a gs' = acquired a (calls w')
          \<and> released a (calls w') \<le> acquired a (calls w'))"
proof (intro conjI impI)
  assume "Released g"
  then show "\<exists>n g'. locked_ptr_move g w = (w, n, g')
         \<and> Released n \<and> Released g'
         \<and> locked_ptr_dtor M n w = (w, Returns ())
         \<and> locked_ptr_dtor M g' w = (w, Returns ())"
    by (simp add: Released_def locked_ptr_move_def locked_ptr_dtor_def)
next
  assume h: "released a (calls w) + holds a gs = acquired a (calls w)
        \<and> run M xs (w, gs) = ((w', gs'), rs)"
  then have "released a (calls w') + holds a gs' = acquired a (calls w')"
    by (blast intro: run_balanced)
  then show "released a (calls w') + holds a gs' = acquired a (calls w')"
    and "released a (calls w') \<le> acquired a (calls w')"
    by simp_all
qed


theorem released_move_harmless_witness:
  "Released \<lparr>Resource_const = False, ptr_p = None, mutex_p = 0\<rparr>
   \<and> (\<exists>n g'. locked_ptr_move \<lparr>Resource_const = False, ptr_p = None, mutex_p = 0\<rparr>
                (fresh counters_zero 42 :: (mock_mutex_count, int, exn) world)
              = (fresh counters_zero 42, n, g') \<and> Released n \<and> Released g')
   \<and> released 0 (calls (fresh counters_zero 42 :: (mock_mutex_count, int, exn) world)) + holds 0 []
       = acquired 0 (calls (fresh counters_zero 42 :: (mock_mutex_count, int, exn) world))
   \<and> run mock_mutex_move_ptr
        [Acquire \<lparr>Resource = by_value, Mutex = by_value, mutex_s = 0, resource_s = 0\<rparr>,
         Move 0, Move 0, Destroy 2, Destroy 1, Destroy 0]
        (fresh counters_zero 42 :: (mock_mutex_count, int, exn) world, [])
       = ((\<lparr>mutexes = (\<lambda>a. counters_zero)(0 := \<lparr>count_lock = 1, count_unlock = 1\<rparr>),
            resources = (\<lambda>a. 42),
            calls = [Lock_call 0 (Returns ()), Unlock_call 0 (Returns ())]\<rparr>, []),
          [Returns (), Returns (), Returns (), Returns (), Returns (), Returns ()])
   \<and> released 0 [Lock_call 0 (Returns ()), Unlock_call 0 (Returns ()) :: exn call]
       \<le> acquired 0 [Lock_call 0 (Returns ()), Unlock_call 0 (Returns ()) :: exn call]"
proof -
  have h1: "Released \<lparr>Resource_const = False, ptr_p = None, mutex_p = 0\<rparr>"
    by (simp add: Released_def)
  have h2: "released 0 (calls (fresh counters_zero 42 :: (mock_mutex_count, int, exn) world)) + holds 0 []
       = acquired 0 (calls (fresh counters_zero 42 :: (mock_mutex_count, int, exn) world))
     \<and> run mock_mutex_move_ptr
        [Acquire \<lparr>Resource = by_value, Mutex = by_value, mutex_s = 0, resource_s = 0\<rparr>,
         Move 0, Move 0, Destroy 2, Destroy 1, Destroy 0]
        (fresh counters_zero 42 :: (mock_mutex_count, int, exn) world, [])
       = ((\<lparr>mutexes = (\<lambda>a. counters_zero)(0 := \<lparr>count_lock = 1, count_unlock = 1\<rparr>),
            resources = (\<lambda>a. 42),
            calls = [Lock_call 0 (Returns ()), Unlock_call 0 (Returns ())]\<rparr>, []),
          [Returns (), Returns (), Returns (), Returns (), Returns (), Returns ()])"
    by (simp add: fresh_def counters_zero_def released_def acquired_def holds_def
          lock_def locked_ptr_ctor_def call_lock_def call_unlock_def enter_def locked_ptr_move_def
          locked_ptr_dtor_def try_catch_all_def mock_mutex_move_ptr_def)
  from released_move_harmless [THEN conjunct1, rule_format, OF h1,
      of "fresh counters_zero 42 :: (mock_mutex_count, int, exn) world" mock_mutex_move_ptr]
  have a: "\<exists>n g'. locked_ptr_move \<lparr>Resource_const = False, ptr_p = None, mutex_p = 0\<rparr>
                (fresh counters_zero 42 :: (mock_mutex_count, int, exn) world)
              = (fresh counters_zero 42, n, g') \<and> Released n \<and> Released g'"
    by blast
  from released_move_harmless [THEN conjunct2, rule_format, OF h2]
  have b: "released 0 [Lock_call 0 (Returns ()), Unlock_call 0 (Returns ()) :: exn call]
       \<le> acquired 0 [Lock_call 0 (Returns ()), Unlock_call 0 (Returns ()) :: exn call]"
    by simp
  from h1 a h2 b show ?thesis by blast
qed

end
